theory Spec2Isabelle
  imports Complex_Main
begin

section \<open>Numbers and the Math library\<close>

text \<open>
  The kinematics engine computes with JavaScript numbers.  They are modelled as
  real numbers, so every statement below is about exact real arithmetic; rounding
  is outside the model, and the one division by zero the code can make is written
  out where it stands, in \<open>limbSolver\<close>.  \<open>Math.cos\<close>, \<open>Math.sin\<close>,
  \<open>Math.acos\<close> and \<open>Math.sqrt\<close> are the functions \<open>cos\<close>, \<open>sin\<close>, \<open>arccos\<close>
  and \<open>sqrt\<close> of the library; \<open>Math.atan2\<close> is written out below, by quadrant.
\<close>

definition TWO_PI :: real where
  "TWO_PI = pi + pi"

definition atan2 :: "real \<Rightarrow> real \<Rightarrow> real" where
  "atan2 y x =
     (if 0 < x then arctan (y / x)
      else if x < 0 then (if 0 \<le> y then arctan (y / x) + pi else arctan (y / x) - pi)
      else if 0 < y then pi / 2
      else if y < 0 then - (pi / 2)
      else 0)"

section \<open>Bones (bone.ts, base-bone.ts)\<close>

datatype fk_type = FK_NONE | FK_MOVE | FK_ROTATE

datatype draw_type = STANDARD | CUSTOM

datatype skin_type = SKIN_NONE | SPLINE_BONE | SPLINE_CHAIN | SPRITE

text \<open>
  A reference to a bone object, as a chain and its bones hold it: the bone at an
  index of the chain's \<open>_bones\<close> array, or a bone that \<open>pop\<close> has taken out of
  the array.  \<open>pop\<close> calls \<open>destruct\<close> on the bone it removes, which resets it
  with \<open>init\<close>; no operation of the chain reads or writes a field of such a bone
  afterwards other than \<open>IS_END\<close>, \<open>NEXT\<close> and its end orientation, so one
  value stands for all of them.  \<open>null\<close> is \<open>None\<close>.
\<close>

datatype bone_ref = In_chain nat | Popped

text \<open>
  The fields of \<open>BaseBone\<close> and \<open>Bone\<close> that the kinematics reads or writes.
  The graphics context, the colours, the skin points and the callbacks belong to
  the rendering collaborators and are left out.
\<close>

record bone =
  NEXT :: "bone_ref option"
  PREV :: "bone_ref option"
  IS_ROOT :: bool
  IS_END :: bool
  RENDERABLE :: bool
  SKIN_ONLY :: bool
  drawType :: draw_type
  skinType :: skin_type
  x0 :: real
  y0 :: real
  x1 :: real
  y1 :: real
  deltaX :: real
  deltaY :: real
  bone_length :: real
  flare :: real
  angle :: real
  deltaAngle :: "real option"
  drawing :: bool
  fk :: fk_type
  lowerLimit :: real
  upperLimit :: real
  unconstrained :: bool

definition ALPHA :: real where
  "ALPHA = 0.2"

text \<open>The constructors of \<open>BaseBone\<close> and \<open>Bone\<close>, which ends in \<open>init()\<close>.\<close>

definition new_Bone :: bone where
  "new_Bone =
     \<lparr> NEXT = None, PREV = None, IS_ROOT = False, IS_END = False, RENDERABLE = True,
       SKIN_ONLY = False, drawType = STANDARD, skinType = SKIN_NONE,
       x0 = 0, y0 = 0, x1 = 0, y1 = 0, deltaX = 0, deltaY = 0, bone_length = 0,
       flare = 0, angle = 0, deltaAngle = None, drawing = False, fk = FK_NONE,
       lowerLimit = - TWO_PI, upperLimit = TWO_PI, unconstrained = True \<rparr>"

text \<open>\<open>get orientation\<close> and \<open>get endOrientation\<close>, which have the same body.\<close>

definition Bone_orientation :: "bone \<Rightarrow> real" where
  "Bone_orientation b = (if angle b \<ge> 0 then angle b else TWO_PI + angle b)"

definition Bone_endOrientation :: "bone \<Rightarrow> real" where
  "Bone_endOrientation b = (if angle b \<ge> 0 then angle b else TWO_PI + angle b)"

text \<open>\<open>set lowerLimit\<close> and \<open>set upperLimit\<close> of \<open>BaseBone\<close>.\<close>

definition Bone_set_lowerLimit :: "real \<Rightarrow> bone \<Rightarrow> bone" where
  "Bone_set_lowerLimit r b =
     b\<lparr> lowerLimit := r,
        unconstrained := (r = - TWO_PI \<and> upperLimit b = TWO_PI) \<rparr>"

definition Bone_set_upperLimit :: "real \<Rightarrow> bone \<Rightarrow> bone" where
  "Bone_set_upperLimit r b =
     b\<lparr> upperLimit := r,
        unconstrained := (lowerLimit b = - TWO_PI \<and> r = TWO_PI) \<rparr>"

definition Bone_setInitial :: "real \<Rightarrow> real \<Rightarrow> bool \<Rightarrow> bone \<Rightarrow> bone" where
  "Bone_setInitial cX cY updateLength b =
     (let b1 = b\<lparr> x0 := cX, y0 := cY \<rparr> in
      if updateLength then
        (let dX = x1 b1 - x0 b1; dY = y1 b1 - y0 b1; l = sqrt (dX * dX + dY * dY) in
         b1\<lparr> deltaX := dX, deltaY := dY, bone_length := l, flare := ALPHA * l \<rparr>)
      else b1)"

definition Bone_setTerminal :: "real \<Rightarrow> real \<Rightarrow> bone \<Rightarrow> bone" where
  "Bone_setTerminal cX cY b =
     (if \<not> drawing b then
        (let dX = cX - x0 b; dY = cY - y0 b; l = sqrt (dX * dX + dY * dY) in
         b\<lparr> x1 := cX, y1 := cY, deltaX := dX, deltaY := dY, bone_length := l,
            flare := ALPHA * l, angle := atan2 dY dX \<rparr>)
      else b)"

text \<open>
  \<open>__isInLimit\<close> of \<open>Bone\<close>, and the copy of it in \<open>Connector\<close>: the arguments are
  the absolute lower limit, the absolute upper limit and the candidate orientation.
\<close>

definition Bone_isInLimit :: "real \<Rightarrow> real \<Rightarrow> real \<Rightarrow> bool" where
  "Bone_isInLimit lower upper child =
     (if lower > upper then
        (if child \<ge> pi \<and> child \<le> TWO_PI
         then child \<ge> lower \<and> child \<le> TWO_PI + upper
         else child + TWO_PI \<ge> lower \<and> child \<le> upper)
      else child \<ge> lower \<and> child \<le> upper)"

definition Connector_isInLimit :: "real \<Rightarrow> real \<Rightarrow> real \<Rightarrow> bool" where
  "Connector_isInLimit lower upper child =
     (if lower > upper then
        (if child \<ge> pi \<and> child \<le> TWO_PI
         then child \<ge> lower \<and> child \<le> TWO_PI + upper
         else child + TWO_PI \<ge> lower \<and> child \<le> upper)
      else child \<ge> lower \<and> child \<le> upper)"

text \<open>
  The joint-limit test as the specification words it (section 4.2), for comparison
  with the code: the split is on \<open>candidate \<ge> \<pi>\<close> alone, and the lower half asks
  for \<open>candidate + 2\<pi>\<close> within \<open>[lower, 2\<pi>]\<close>.
\<close>

definition inLimit_spec :: "real \<Rightarrow> real \<Rightarrow> real \<Rightarrow> bool" where
  "inLimit_spec lower upper candidate =
     (if lower \<le> upper then lower \<le> candidate \<and> candidate \<le> upper
      else if candidate \<ge> pi then lower \<le> candidate \<and> candidate \<le> 2 * pi + upper
      else lower \<le> candidate + 2 * pi \<and> candidate + 2 * pi \<le> 2 * pi \<and> candidate \<le> upper)"

text \<open>
  The absolute limits the orientation setter derives from the parent's end
  orientation \<open>p0\<close> and the bone's limit offsets, and the setter's normalisation of
  its argument.
\<close>

definition absLower :: "real \<Rightarrow> real \<Rightarrow> real" where
  "absLower p0 lowerLim = (let lower = p0 + lowerLim in if lower > 0 then lower else TWO_PI + lower)"

definition absUpper :: "real \<Rightarrow> real \<Rightarrow> real" where
  "absUpper p0 upperLim = (let upper = p0 + upperLim in if upper \<le> TWO_PI then upper else upper - TWO_PI)"

definition normAngle :: "real \<Rightarrow> real" where
  "normAngle rad = (if rad \<ge> 0 then rad else TWO_PI + rad)"

text \<open>
  The forward propagation of a bone's operation follows \<open>NEXT\<close>: the source
  calls the operation of \<open>this.NEXT\<close> when \<open>NEXT\<close> is not \<open>null\<close>, and otherwise
  the \<open>_onFinal\<close> callback and the operation of \<open>_linkedTo\<close>, which act on other
  objects.  In a chain that \<open>addBone\<close> and \<open>pop\<close> have built, the \<open>NEXT\<close> of a
  bone of the array is \<open>null\<close> or the bone that follows it in the array (lemmas
  \<open>next_follows_addBone\<close> and \<open>next_follows_pop\<close>).  An operation is therefore a
  function on the list that starts at the bone it is called on and holds the bones
  after it in array order: it goes on to the following bone when \<open>NEXT\<close> is set,
  and leaves the rest of the list as it is when \<open>NEXT\<close> is \<open>null\<close>.
\<close>

fun Bone_moveInitial :: "real \<Rightarrow> real \<Rightarrow> bone list \<Rightarrow> bone list" where
  "Bone_moveInitial toX toY [] = []"
| "Bone_moveInitial toX toY (b # bs) =
     (let dX = toX - x0 b;
          dY = toY - y0 b;
          b' = b\<lparr> fk := FK_MOVE, x0 := toX, y0 := toY, x1 := x1 b + dX, y1 := y1 b + dY \<rparr>
      in b' # (if NEXT b \<noteq> None then Bone_moveInitial (x1 b') (y1 b') bs else bs))"

definition Bone_move :: "real \<Rightarrow> real \<Rightarrow> bone list \<Rightarrow> bone list" where
  "Bone_move toX toY bs = Bone_moveInitial toX toY bs"

fun Bone_moveAndRotate ::
  "real \<Rightarrow> real \<Rightarrow> real \<Rightarrow> real option \<Rightarrow> real option \<Rightarrow> bone list \<Rightarrow> bone list" where
  "Bone_moveAndRotate toX toY dA c s [] = []"
| "Bone_moveAndRotate toX toY dA c s (b # bs) =
     (let c1 = (case c of None \<Rightarrow> cos dA | Some v \<Rightarrow> v);
          s1 = (case s of None \<Rightarrow> sin dA | Some v \<Rightarrow> v);
          dx = deltaX b * c1 - deltaY b * s1;
          dy = deltaX b * s1 + deltaY b * c1;
          b' = b\<lparr> x0 := toX, y0 := toY, fk := FK_ROTATE, angle := angle b + dA,
                  x1 := dx + toX, y1 := dy + toY, deltaX := dx, deltaY := dy \<rparr>
      in b' # (if NEXT b \<noteq> None
               then Bone_moveAndRotate (x1 b') (y1 b') dA (Some c1) (Some s1) bs else bs))"

fun Bone_rotate :: "real \<Rightarrow> real option \<Rightarrow> real option \<Rightarrow> bone list \<Rightarrow> bone list" where
  "Bone_rotate dA c s [] = []"
| "Bone_rotate dA c s (b # bs) =
     (let c1 = (case c of None \<Rightarrow> cos dA | Some v \<Rightarrow> v);
          s1 = (case s of None \<Rightarrow> sin dA | Some v \<Rightarrow> v);
          dx = deltaX b * c1 - deltaY b * s1;
          dy = deltaX b * s1 + deltaY b * c1;
          b' = b\<lparr> fk := FK_ROTATE, angle := angle b + dA,
                  x1 := dx + x0 b, y1 := dy + y0 b, deltaX := dx, deltaY := dy \<rparr>
      in b' # (if NEXT b \<noteq> None
               then Bone_moveAndRotate (x1 b') (y1 b') dA (Some c1) (Some s1) bs else bs))"

text \<open>
  \<open>set orientation\<close>.  \<open>parent\<close> is the end orientation of the bone's parent
  (\<open>PREV\<close> when there is one, \<open>_linkedTo\<close> otherwise), \<open>None\<close> when the bone has
  no parent.  A rejected assignment returns without any change.
\<close>

fun Bone_set_orientation :: "real \<Rightarrow> real option \<Rightarrow> bone list \<Rightarrow> bone list" where
  "Bone_set_orientation rad parent [] = []"
| "Bone_set_orientation rad parent (b # bs) =
     (let orient = (if angle b \<ge> 0 then angle b else TWO_PI + angle b);
          ang = normAngle rad;
          dA0 = ang - orient;
          dA = (if \<bar>dA0\<bar> > pi then (if dA0 < 0 then dA0 + TWO_PI else dA0 - TWO_PI) else dA0);
          rejected =
            (\<not> unconstrained b \<and>
             (case parent of
                None \<Rightarrow> False
              | Some p0 \<Rightarrow>
                  \<not> Bone_isInLimit (absLower p0 (lowerLimit b)) (absUpper p0 (upperLimit b)) ang))
      in if rejected then b # bs
         else
           (let c = cos dA;
                s = sin dA;
                newDX = deltaX b * c - deltaY b * s;
                newDY = deltaX b * s + deltaY b * c;
                l = sqrt (newDX * newDX + newDY * newDY);
                b' = b\<lparr> fk := FK_ROTATE, angle := ang, deltaAngle := Some dA,
                        x1 := newDX + x0 b, y1 := newDY + y0 b,
                        deltaX := newDX, deltaY := newDY,
                        bone_length := l, flare := ALPHA * l \<rparr>
            in b' # (if NEXT b \<noteq> None
                     then Bone_moveAndRotate (x1 b') (y1 b') dA (Some c) (Some s) bs else bs)))"

text \<open>The setter called on a bone that no bone follows: the bone it leaves.\<close>

definition set_orientation_last :: "real \<Rightarrow> real option \<Rightarrow> bone \<Rightarrow> bone" where
  "set_orientation_last rad parent b =
     (case Bone_set_orientation rad parent [b] of [] \<Rightarrow> b | b' # _ \<Rightarrow> b')"

text \<open>\<open>reorient\<close> places one bone and does not propagate.\<close>

definition Bone_reorient :: "real \<Rightarrow> real \<Rightarrow> real \<Rightarrow> bool \<Rightarrow> bool \<Rightarrow> bone \<Rightarrow> bone" where
  "Bone_reorient toX toY ang move rot b =
     (let b1 = b\<lparr> angle := ang \<rparr>;
          b2 = (if move then b1\<lparr> x0 := toX, y0 := toY \<rparr> else b1)
      in b2\<lparr> x1 := x0 b2 + bone_length b2 * cos (angle b2),
             y1 := y0 b2 + bone_length b2 * sin (angle b2) \<rparr>)"

text \<open>
  \<open>draw\<close>, as far as it touches the fields above: \<open>__std\<close> recomputes \<open>_angle\<close>
  and clears \<open>_drawing\<close> (unless only the skin is drawn), \<open>__drawCustom\<close> writes to
  the graphics context only and leaves \<open>_drawing\<close> set.
\<close>

definition Bone_std :: "bone \<Rightarrow> bone" where
  "Bone_std b =
     (if skinType b = SKIN_NONE \<or> \<not> SKIN_ONLY b
      then b\<lparr> angle := atan2 (deltaY b) (deltaX b), drawing := False \<rparr>
      else b)"

definition Bone_drawCustom :: "bone \<Rightarrow> bone" where
  "Bone_drawCustom b = b"

definition Bone_draw :: "bone \<Rightarrow> bone" where
  "Bone_draw b =
     (if drawing b then b
      else if RENDERABLE b then
        (let b1 = b\<lparr> drawing := True \<rparr> in
         if drawType b1 = STANDARD then Bone_std b1 else Bone_drawCustom b1)
      else b)"

definition Bone_set_drawType :: "draw_type \<Rightarrow> bone \<Rightarrow> bone" where
  "Bone_set_drawType t b = b\<lparr> drawType := t \<rparr>"

section \<open>Chains (chain.ts)\<close>

text \<open>
  What ends an operation early.  \<open>TypeError\<close> is the exception JavaScript throws
  on reading or writing a property of \<open>null\<close> or \<open>undefined\<close>.  \<open>NotANumber\<close> is
  not an exception: it marks the one place where the code computes \<open>0/0\<close> and goes
  on with \<open>NaN\<close> in the coordinates, which real numbers cannot follow.
\<close>

datatype error = TypeError | NotANumber

datatype solver = CcdBasic | LimbSolver

text \<open>
  A chain owns the array \<open>_bones\<close>; \<open>_count\<close> always equals its length (\<open>addBone\<close>
  writes \<open>_bones[_count]\<close> and increments, \<open>pop\<close> assigns \<open>_bones.length\<close>), so
  \<open>size\<close> is the length of the list.  \<open>_rootBone\<close> and \<open>_terminalBone\<close> are
  references into the array, kept as indices; after the failing \<open>pop\<close> of the only
  bone \<open>_rootBone\<close> is left on the removed bone, and the index then points past the
  end of the array.  \<open>_current\<close> is the bone \<open>addBone\<close> was given last; \<open>pop\<close>
  does not reset it, so it can be a bone that has left the array.  The chain stands
  alone: nothing is linked to or from it (\<open>_linkedTo\<close>, \<open>_linkedFrom\<close> are
  \<open>null\<close>, \<open>_forward\<close> is empty), so \<open>invalidate\<close> and the forward moves at the
  end of an operation have nothing to act on.
\<close>

record chain =
  bones :: "bone list"
  rootBone :: "nat option"
  terminalBone :: "nat option"
  current :: "bone_ref option"
  ikSolver :: "solver option"
  skinType_c :: skin_type
  REDRAW_ON_SOLVE :: bool

definition new_Chain :: chain where
  "new_Chain =
     \<lparr> bones = [], rootBone = None, terminalBone = None, current = None, ikSolver = None,
       skinType_c = SKIN_NONE, REDRAW_ON_SOLVE = False \<rparr>"

type_synonym 'a outcome = "(error \<times> chain) + 'a"

text \<open>The chain an operation leaves, whether it returned or ended early.\<close>

definition outcome_chain :: "chain outcome \<Rightarrow> chain" where
  "outcome_chain r = (case r of Inl (e, c) \<Rightarrow> c | Inr c \<Rightarrow> c)"

definition Chain_size :: "chain \<Rightarrow> nat" where
  "Chain_size c = length (bones c)"

definition Chain_getBone :: "chain \<Rightarrow> nat \<Rightarrow> bone option" where
  "Chain_getBone c i = (if i < length (bones c) then Some (bones c ! i) else None)"

definition bone_ref :: "chain \<Rightarrow> nat option \<Rightarrow> bone option" where
  "bone_ref c r = (case r of None \<Rightarrow> None | Some i \<Rightarrow> Chain_getBone c i)"

definition Chain_initX :: "chain \<Rightarrow> real option" where
  "Chain_initX c = map_option x0 (bone_ref c (rootBone c))"

definition Chain_initY :: "chain \<Rightarrow> real option" where
  "Chain_initY c = map_option y0 (bone_ref c (rootBone c))"

definition Chain_terminalX :: "chain \<Rightarrow> real option" where
  "Chain_terminalX c = map_option x1 (bone_ref c (terminalBone c))"

definition Chain_terminalY :: "chain \<Rightarrow> real option" where
  "Chain_terminalY c = map_option y1 (bone_ref c (terminalBone c))"

definition setBone :: "nat \<Rightarrow> bone \<Rightarrow> chain \<Rightarrow> chain" where
  "setBone i b c = c\<lparr> bones := (bones c)[i := b] \<rparr>"

text \<open>An operation called on bone \<open>i\<close> acts on that bone and its successors.\<close>

definition apply_at :: "nat \<Rightarrow> (bone list \<Rightarrow> bone list) \<Rightarrow> bone list \<Rightarrow> bone list" where
  "apply_at i f bs = take i bs @ f (drop i bs)"

text \<open>
  \<open>addBone\<close>.  The bone is stored at \<open>_bones[_count]\<close>, the end of the array.
  When the chain has a bone already, \<open>_previous\<close> becomes the old \<open>_current\<close> and
  is linked to the new bone: its \<open>IS_END\<close> and \<open>NEXT\<close> are written, and the new
  bone's \<open>PREV\<close> is set to it.  After a \<open>pop\<close> the old \<open>_current\<close> is the removed
  bone, so it is the removed bone that is linked, and the last bone of the array
  keeps \<open>NEXT = null\<close> and \<open>IS_END = true\<close>.  With a bone in the array and
  \<open>_current = null\<close> the write to \<open>_previous.IS_END\<close> throws, before \<open>_count\<close> is
  incremented; no sequence of \<open>addBone\<close> and \<open>pop\<close> calls leads there, since
  \<open>_current\<close> is \<open>null\<close> only before the first \<open>addBone\<close>.
\<close>

definition Chain_addBone :: "bone \<Rightarrow> chain \<Rightarrow> chain outcome" where
  "Chain_addBone b c =
     (let count = length (bones c);
          b1 = b\<lparr> skinType := skinType_c c, IS_ROOT := (count = 0), IS_END := True \<rparr>
      in if count > 0 then
           (case current c of
              None \<Rightarrow>
                Inl (TypeError, c\<lparr> bones := bones c @ [b1], current := Some (In_chain count) \<rparr>)
            | Some Popped \<Rightarrow>
                Inr (c\<lparr> bones := bones c @ [b1\<lparr> PREV := Some Popped \<rparr>],
                        current := Some (In_chain count),
                        terminalBone := Some count \<rparr>)
            | Some (In_chain j) \<Rightarrow>
                Inr (c\<lparr> bones :=
                          (bones c)[j := (bones c ! j)\<lparr> IS_END := False, NEXT := Some (In_chain count) \<rparr>]
                          @ [b1\<lparr> PREV := Some (In_chain j) \<rparr>],
                        current := Some (In_chain count),
                        terminalBone := Some count \<rparr>))
         else
           Inr (c\<lparr> bones := [b1], current := Some (In_chain count),
                   rootBone := Some count, terminalBone := Some count \<rparr>))"

text \<open>A sequence of \<open>addBone\<close> calls; the first exception ends it.\<close>

fun add_bones :: "bone list \<Rightarrow> chain \<Rightarrow> chain outcome" where
  "add_bones [] c = Inr c"
| "add_bones (b # bs) c =
     (case Chain_addBone b c of Inl e \<Rightarrow> Inl e | Inr c' \<Rightarrow> add_bones bs c')"

text \<open>
  \<open>pop\<close>.  \<open>_bones.pop()\<close> on an empty array gives \<open>undefined\<close>, and the call of
  \<open>destruct\<close> on it throws.  Otherwise the removed bone is reset and leaves the
  chain; a \<open>_current\<close> that referred to it now refers to a removed bone.  When no
  bone is left, \<open>_bones[-1]\<close> is \<open>undefined\<close>, and the assignment to its \<open>IS_END\<close>
  throws after \<open>_count\<close> and \<open>_terminalBone\<close> have been written.
\<close>

definition Chain_pop :: "chain \<Rightarrow> chain outcome" where
  "Chain_pop c =
     (case bones c of
        [] \<Rightarrow> Inl (TypeError, c)
      | _ # _ \<Rightarrow>
          (let bs = butlast (bones c);
               count = length bs;
               c1 = c\<lparr> bones := bs,
                       current := (if current c = Some (In_chain count) then Some Popped
                                   else current c),
                       terminalBone := (if count = 0 then None else Some (count - 1)) \<rparr>
           in if count = 0 then Inl (TypeError, c1)
              else Inr (c1\<lparr> bones := bs[count - 1 := (bs ! (count - 1))\<lparr> IS_END := True, NEXT := None \<rparr>] \<rparr>)))"

definition Chain_move :: "real \<Rightarrow> real \<Rightarrow> chain \<Rightarrow> chain outcome" where
  "Chain_move toX toY c =
     (case rootBone c of
        None \<Rightarrow> Inl (TypeError, c)
      | Some r \<Rightarrow> Inr (c\<lparr> bones := apply_at r (Bone_moveInitial toX toY) (bones c) \<rparr>))"

definition Chain_rotate :: "real \<Rightarrow> chain \<Rightarrow> chain outcome" where
  "Chain_rotate dA c =
     (case rootBone c of
        None \<Rightarrow> Inl (TypeError, c)
      | Some r \<Rightarrow> Inr (c\<lparr> bones := apply_at r (Bone_rotate dA None None) (bones c) \<rparr>))"

definition Chain_moveAndRotate :: "real \<Rightarrow> real \<Rightarrow> real \<Rightarrow> chain \<Rightarrow> chain outcome" where
  "Chain_moveAndRotate toX toY dA c =
     (case rootBone c of
        None \<Rightarrow> Inl (TypeError, c)
      | Some r \<Rightarrow>
          Inr (c\<lparr> bones :=
                 apply_at r (Bone_moveAndRotate toX toY dA (Some (cos dA)) (Some (sin dA))) (bones c) \<rparr>))"

section \<open>The iterative solver (ccd-basic.ts)\<close>

record limb_params =
  lowerLimit0 :: "real option"
  upperLimit0 :: "real option"
  lowerLimit1 :: "real option"
  upperLimit1 :: "real option"

text \<open>
  The local variables of \<open>ccdBasic\<close> that live across iterations of its
  \<open>while\<close> loop, with the chain it mutates.  \<open>_recordX\<close> and \<open>_recordY\<close> are
  arrays written by index, kept as maps from the index; \<open>rd\<close> reads one entry.
  The solver reads an entry only after it has written it, so the value \<open>rd\<close>
  gives for a missing entry is never used on a chain with a bone.
\<close>

record ccd_state =
  chain_s :: chain
  curTargetX :: real
  curTargetY :: real
  termX :: real
  termY :: real
  recordX :: "nat \<rightharpoonup> real"
  recordY :: "nat \<rightharpoonup> real"
  iterations :: nat
  isTarget :: bool
  finished :: bool
  deltaX_s :: real
  deltaY_s :: real
  cycles :: nat

definition rd :: "(nat \<rightharpoonup> real) \<Rightarrow> nat \<Rightarrow> real" where
  "rd m i = (case m i of Some v \<Rightarrow> v | None \<Rightarrow> 0)"

definition stop :: real where
  "stop = 4"

definition maxCycles :: nat where
  "maxCycles = 3"

definition ccd_init :: "real \<Rightarrow> real \<Rightarrow> chain \<Rightarrow> ccd_state" where
  "ccd_init x y c =
     \<lparr> chain_s = c, curTargetX = x, curTargetY = y, termX = 0, termY = 0,
       recordX = Map.empty, recordY = Map.empty, iterations = 0, isTarget = True,
       finished = False, deltaX_s = 0, deltaY_s = 0, cycles = 0 \<rparr>"

text \<open>
  The parent whose end orientation the orientation setter checks the limits
  against: \<open>PREV\<close> when it is set, \<open>_linkedTo\<close> otherwise, which no bone of a
  stand-alone chain has.  A removed bone has been reset by \<open>init\<close>, so its end
  orientation is that of a new bone.
\<close>

definition parent_orientation :: "chain \<Rightarrow> bone \<Rightarrow> real option" where
  "parent_orientation c b =
     (case PREV b of
        None \<Rightarrow> None
      | Some (In_chain j) \<Rightarrow> map_option Bone_endOrientation (Chain_getBone c j)
      | Some Popped \<Rightarrow> Some (Bone_endOrientation new_Bone))"

text \<open>
  One pass through the body of the \<open>while\<close> loop, for the target \<open>(x, y)\<close>:
  \<open>Inl\<close> is the state at the end of the body, \<open>Inr\<close> a \<open>return\<close> from inside it.
  The last bone of the array has no bone after it, so its orientation setter
  propagates to nothing in the array.
\<close>

definition ccd_step :: "real \<Rightarrow> real \<Rightarrow> ccd_state \<Rightarrow> ccd_state + (bool \<times> chain)" where
  "ccd_step x y s =
     (let c = chain_s s; n = Chain_size c in
      if isTarget s then
        (if iterations s < n then
           (let index = n - iterations s - 1;
                b = bones c ! index;
                dX = curTargetX s - x0 b;
                dY = curTargetY s - y0 b;
                rot = atan2 dY dX;
                l = bone_length b;
                cX = curTargetX s - l * cos rot;
                cY = curTargetY s - l * sin rot
            in Inl (s\<lparr> curTargetX := cX, curTargetY := cY,
                        recordX := (if index > 0 then (recordX s)(index - 1 \<mapsto> cX) else recordX s),
                        recordY := (if index > 0 then (recordY s)(index - 1 \<mapsto> cY) else recordY s),
                        iterations := iterations s + 1 \<rparr>))
         else
           Inl (s\<lparr> isTarget := False, finished := False, iterations := 0,
                    recordX := (if n = 0 then recordX s else (recordX s)(n - 1 \<mapsto> curTargetX s)),
                    recordY := (if n = 0 then recordY s else (recordY s)(n - 1 \<mapsto> curTargetY s)) \<rparr>))
      else
        (if iterations s < n then
           (let i = iterations s; b = bones c ! i in
            if i = 0 then
              (let curX = x0 b;
                   curY = y0 b;
                   dX = curTargetX s - curX;
                   dY = curTargetY s - curY;
                   tX = rd (recordX s) 0 - dX;
                   tY = rd (recordY s) 0 - dY
               in Inl (s\<lparr> termX := tX, termY := tY, deltaX_s := dX, deltaY_s := dY,
                           chain_s := setBone i (Bone_setTerminal tX tY b) c,
                           iterations := i + 1 \<rparr>))
            else if i < n - 1 then
              (let curX = termX s;
                   curY = termY s;
                   tX = rd (recordX s) i - deltaX_s s;
                   tY = rd (recordY s) i - deltaY_s s
               in Inl (s\<lparr> termX := tX, termY := tY,
                           chain_s := setBone i (Bone_setTerminal tX tY (Bone_setInitial curX curY False b)) c,
                           iterations := i + 1 \<rparr>))
            else
              (let b1 = Bone_setInitial (termX s) (termY s) False b;
                   dX = x - termX s;
                   dY = y - termY s;
                   parent = parent_orientation c b;
                   b2 = set_orientation_last (atan2 dY dX) parent b1
               in Inl (s\<lparr> chain_s := setBone i b2 c, iterations := i + 1 \<rparr>)))
         else
           (let fin =
                  ((case (Chain_terminalX c, Chain_terminalY c) of
                      (Some tx, Some ty) \<Rightarrow>
                        (let dX = x - tx; dY = y - ty in dX * dX + dY * dY \<le> stop)
                    | _ \<Rightarrow> False)
                   \<or> cycles s \<ge> maxCycles)
            in if \<not> fin then
                 Inl (s\<lparr> finished := fin, curTargetX := x, curTargetY := y,
                          iterations := 0, isTarget := True, cycles := cycles s + 1 \<rparr>)
               else Inr (True, c))))"

function ccd_loop :: "real \<Rightarrow> real \<Rightarrow> ccd_state \<Rightarrow> bool \<times> chain" where
  "ccd_loop x y s =
     (if finished s then (False, chain_s s)
      else (case ccd_step x y s of Inl s' \<Rightarrow> ccd_loop x y s' | Inr r \<Rightarrow> r))"
  by pat_completeness auto
termination
  by (relation "measures [\<lambda>(x, y, s). maxCycles - cycles s,
                          \<lambda>(x, y, s). if isTarget s then 1 else 0,
                          \<lambda>(x, y, s). Chain_size (chain_s s) - iterations s]")
     (auto simp: ccd_step_def Let_def Chain_size_def setBone_def split: if_splits)

definition ccdBasicPinned :: "real \<Rightarrow> real \<Rightarrow> chain \<Rightarrow> bool \<times> chain" where
  "ccdBasicPinned x y c = (False, c)"

definition ccdBasic :: "real \<Rightarrow> real \<Rightarrow> chain \<Rightarrow> bool \<Rightarrow> limb_params option \<Rightarrow> bool \<times> chain" where
  "ccdBasic x y c isPinned params =
     (if isPinned then ccdBasicPinned x y c else ccd_loop x y (ccd_init x y c))"


section \<open>The two-bone solver (limbSolver)\<close>

definition isClockwise :: "real \<Rightarrow> real \<Rightarrow> real \<Rightarrow> real \<Rightarrow> real \<Rightarrow> real \<Rightarrow> bool" where
  "isClockwise ax ay bx by cx cy = ((cy - ay) * (bx - ax) > (by - ay) * (cx - ax))"

definition getRotation ::
  "real \<Rightarrow> real \<Rightarrow> real \<Rightarrow> real \<Rightarrow> real \<Rightarrow> real \<Rightarrow> real \<Rightarrow> real \<Rightarrow> real \<Rightarrow> real \<Rightarrow> real" where
  "getRotation xRoot yRoot p c lowerL upperL bX bY tX tY =
     (let parent = (if p > 0 then p else TWO_PI + p);
          child = (if c > 0 then c else TWO_PI + c);
          lower0 = parent + lowerL;
          lower = (if lower0 \<ge> 0 then lower0 else TWO_PI + lower0);
          upper = parent + upperL;
          cw = isClockwise xRoot yRoot bX bY tX tY
      in if cw then
           (let d0 = upper - child;
                d = (if d0 > pi then d0 - TWO_PI else d0)
            in if d < 0 then upper else c)
         else
           (let d = child - lower in if d < 0 then lower else c))"

definition param ::
  "limb_params option \<Rightarrow> (limb_params \<Rightarrow> real option) \<Rightarrow> real \<Rightarrow> real" where
  "param params field dflt =
     (case params of
        None \<Rightarrow> dflt
      | Some p \<Rightarrow> (case field p of None \<Rightarrow> dflt | Some v \<Rightarrow> v))"

text \<open>
  \<open>limbSolver\<close>.  With fewer than two bones \<open>chain.getBone(1)\<close> or
  \<open>chain.getBone(0)\<close> is \<open>undefined\<close> and reading its \<open>length\<close> throws, before
  any bone has been touched.  The result is the returned flag and the chain with
  its first two bones reoriented.  \<open>chain.initX\<close> is \<open>_rootBone?.initX\<close>: with
  two bones and no root bone it is \<open>undefined\<close>, every number computed from it is
  \<open>NaN\<close>, and the code fills both bones with \<open>NaN\<close>.

  \<open>c2\<close> is a quotient by \<open>2 l1 l2\<close>.  When a bone has length 0 the code divides by
  zero: a nonzero numerator gives an infinity, which fails the test
  \<open>-1 \<le> c2 \<le> 1\<close> and takes the branch for an infeasible solution; the numerator 0
  gives \<open>NaN\<close>, which passes both comparisons as false, and the code fills both
  bones with \<open>NaN\<close> and returns \<open>dSq \<le> _lMax\<close>.  The model ends there with
  \<open>NotANumber\<close> and the chain as it was.
\<close>

definition limbSolver ::
  "real \<Rightarrow> real \<Rightarrow> chain \<Rightarrow> bool \<Rightarrow> limb_params option \<Rightarrow> (bool \<times> chain) outcome" where
  "limbSolver x y c isPinned params =
     (case (Chain_getBone c 0, Chain_getBone c 1, Chain_initX c, Chain_initY c) of
        (Some b1, Some b2, Some xRoot, Some yRoot) \<Rightarrow>
          (let lower0 = param params lowerLimit0 (- 3 * pi / 5);
               upper0 = param params upperLimit0 (0.5 * pi);
               lower1 = param params lowerLimit1 (- 0.5 * pi);
               upper1 = param params upperLimit1 (3 * pi / 4);
               l1 = bone_length b1;
               l2 = bone_length b2;
               lMax = (l1 + l2) * (l1 + l2);
               two_l1l2 = 2 * l1 * l2;
               l1Sq = l1 * l1;
               l2Sq = l2 * l2;
               tX = x;
               tY = y;
               dX = tX - xRoot;
               dY = tY - yRoot;
               dSq = dX * dX + dY * dY
           in
           if dSq > lMax then
             (let th0 = atan2 dY dX;
                  lim1 = (th0 < lower0);
                  th1 = (if lim1 then lower0 else th0);
                  lim2 = (th1 > upper0);
                  theta1 = (if lim2 then upper0 else th1);
                  limit = (lim1 \<or> lim2);
                  b1' = Bone_reorient 0 0 theta1 False True b1;
                  b2X = x1 b1';
                  b2Y = y1 b1';
                  b2' =
                    (if limit then
                       (let pointTo = atan2 (tY - b2Y) (tX - b2X);
                            theta2 =
                              (if \<bar>theta1 - pointTo\<bar> < 0.1 then theta1
                               else getRotation xRoot yRoot theta1 pointTo lower1 upper1 b2X b2Y tX tY)
                        in Bone_reorient b2X b2Y theta2 True True b2)
                     else Bone_reorient b2X b2Y theta1 True True b2);
                  c' = setBone 1 b2' (setBone 0 b1' c)
              in Inr (if limit then False else dSq \<le> lMax, c'))
           else
             (let num = dX * dX + dY * dY - l1Sq - l2Sq;
                  c2 = num / two_l1l2;
                  infeasible = (if two_l1l2 = 0 then num \<noteq> 0 else c2 < - 1 \<or> c2 > 1)
              in
              if two_l1l2 = 0 \<and> num = 0 then Inl (NotANumber, c)
              else if infeasible then
                (let th0 = atan2 dY dX;
                     theta1 = min (max th0 lower0) upper0;
                     b1' = Bone_reorient 0 0 theta1 False True b1;
                     b2X = x1 b1';
                     b2Y = y1 b1';
                     ang = min pi upper1;
                     b2' = Bone_reorient b2X b2Y (theta1 + ang) True True b2;
                     c' = setBone 1 b2' (setBone 0 b1' c)
                 in Inr (dSq \<le> lMax, c'))
              else
                (let theta2 = arccos c2;
                     s2 = sin theta2;
                     l2s2 = l2 * s2;
                     l2c2 = l2 * c2;
                     l1c2 = l1 + l2c2;
                     th0 = atan2 (l1c2 * dY - l2s2 * dX) (l2s2 * dY + l1c2 * dX);
                     lim1 = (th0 < lower0);
                     lim2 = (\<not> lim1 \<and> th0 > upper0);
                     theta1 = (if lim1 then lower0 else if lim2 then upper0 else th0);
                     limit = (lim1 \<or> lim2);
                     b1' = Bone_reorient 0 0 theta1 False True b1;
                     b2X = x1 b1';
                     b2Y = y1 b1';
                     b2' =
                       (if limit then
                          (let pointTo = atan2 (tY - b2Y) (tX - b2X);
                               theta2' =
                                 (if \<bar>theta1 - pointTo\<bar> < 0.1 then theta1
                                  else getRotation xRoot yRoot theta1 pointTo lower1 upper1 b2X b2Y tX tY)
                           in Bone_reorient b2X b2Y theta2' True True b2)
                        else
                          (let theta2' =
                                 getRotation xRoot yRoot theta1 (theta1 + theta2) lower1 upper1 b2X b2Y tX tY
                           in Bone_reorient b2X b2Y theta2' True True b2));
                     c' = setBone 1 b2' (setBone 0 b1' c)
                 in Inr (if limit then False else dSq \<le> lMax, c'))))
      | (Some b1, Some b2, _, _) \<Rightarrow> Inl (NotANumber, c)
      | _ \<Rightarrow> Inl (TypeError, c))"

section \<open>Moving the end effector (chain.ts)\<close>

text \<open>
  \<open>moveEndEffector\<close> of a chain with no backward link: the branch for
  \<open>_linkedFrom != null && isPinned\<close> is not taken.  Both solver calls of the
  source pass \<open>null\<close> for \<open>params\<close>.
\<close>

definition Chain_moveEndEffector :: "real \<Rightarrow> real \<Rightarrow> bool \<Rightarrow> chain \<Rightarrow> (bool \<times> chain) outcome" where
  "Chain_moveEndEffector toX toY isPinned c =
     (let slv = (case ikSolver c of None \<Rightarrow> CcdBasic | Some s \<Rightarrow> s);
          c1 = c\<lparr> ikSolver := Some slv \<rparr>;
          solved = (case slv of
                      CcdBasic \<Rightarrow> Inr (ccdBasic toX toY c1 isPinned None)
                    | LimbSolver \<Rightarrow> limbSolver toX toY c1 isPinned None)
      in case solved of
           Inl e \<Rightarrow> Inl e
         | Inr (resolved, c2) \<Rightarrow>
             Inr (resolved,
                  if REDRAW_ON_SOLVE c2 then c2\<lparr> bones := map Bone_draw (bones c2) \<rparr> else c2))"

text \<open>Sequences of the chain's operations; the first exception ends the sequence.\<close>

datatype chain_op =
    Move real real
  | Rotate real
  | MoveAndRotate real real real
  | MoveEndEffector real real bool

fun apply_op :: "chain_op \<Rightarrow> chain \<Rightarrow> chain outcome" where
  "apply_op (Move toX toY) c = Chain_move toX toY c"
| "apply_op (Rotate dA) c = Chain_rotate dA c"
| "apply_op (MoveAndRotate toX toY dA) c = Chain_moveAndRotate toX toY dA c"
| "apply_op (MoveEndEffector toX toY isPinned) c =
     (case Chain_moveEndEffector toX toY isPinned c of
        Inl e \<Rightarrow> Inl e
      | Inr (resolved, c') \<Rightarrow> Inr c')"

fun apply_ops :: "chain_op list \<Rightarrow> chain \<Rightarrow> chain outcome" where
  "apply_ops [] c = Inr c"
| "apply_ops (op # ops) c =
     (case apply_op op c of Inl e \<Rightarrow> Inl e | Inr c' \<Rightarrow> apply_ops ops c')"

section \<open>Predicates of the claims\<close>

text \<open>Consecutive bones share a joint: terminal of bone \<open>i\<close> is initial of bone \<open>i + 1\<close>.\<close>

fun continuous :: "bone list \<Rightarrow> bool" where
  "continuous [] = True"
| "continuous [b] = True"
| "continuous (a # b # bs) = (x1 a = x0 b \<and> y1 a = y0 b \<and> continuous (b # bs))"

text \<open>
  The length of a bone as the specification defines it (section 3): the distance
  between its two joints.  The getter \<open>length\<close> of the code returns the cached
  field \<open>_length\<close>, here \<open>bone_length\<close>.
\<close>

definition joint_length :: "bone \<Rightarrow> real" where
  "joint_length b = sqrt ((x1 b - x0 b) * (x1 b - x0 b) + (y1 b - y0 b) * (y1 b - y0 b))"

definition endpoints :: "bone \<Rightarrow> real \<times> real \<times> real \<times> real" where
  "endpoints b = (x0 b, y0 b, x1 b, y1 b)"






text \<open>
  The links of a chain that \<open>addBone\<close> and \<open>pop\<close> have built: the \<open>NEXT\<close> of a
  bone of the array is \<open>null\<close> or the bone after it, and \<open>_current\<close> is the last
  bone of the array or a removed bone.
\<close>

definition next_follows :: "chain \<Rightarrow> bool" where
  "next_follows c =
     ((\<forall>i<length (bones c).
          NEXT (bones c ! i) = None
          \<or> (i + 1 < length (bones c) \<and> NEXT (bones c ! i) = Some (In_chain (i + 1))))
      \<and> (bones c \<noteq> [] \<longrightarrow>
            current c = Some Popped \<or> current c = Some (In_chain (length (bones c) - 1))))"

section \<open>Example bones and chains\<close>

text \<open>
  A bone placed the way \<open>addBoneAt\<close> places it (\<open>setInitial\<close>, then
  \<open>setTerminal\<close>), and chains grown by \<open>addBone\<close> from the empty chain.
\<close>

definition bone_at :: "real \<Rightarrow> real \<Rightarrow> real \<Rightarrow> real \<Rightarrow> bone" where
  "bone_at ax ay bx by = Bone_setTerminal bx by (Bone_setInitial ax ay True new_Bone)"

definition chain_of :: "bone list \<Rightarrow> chain" where
  "chain_of bs = outcome_chain (add_bones bs new_Chain)"

definition one_bone_chain :: chain where
  "one_bone_chain = chain_of [bone_at 0 0 1 0]"

definition two_bone_chain :: chain where
  "two_bone_chain = chain_of [bone_at 0 0 1 0, bone_at 1 0 2 0]"

definition limb_chain :: chain where
  "limb_chain = chain_of [bone_at 0 0 100 0, bone_at 100 0 150 0]"

text \<open>Five calls of \<open>rotate(-\<pi>/2)\<close> in a row.\<close>

definition quarter_turns_back :: "bone list \<Rightarrow> bone list" where
  "quarter_turns_back bs =
     Bone_rotate (- (pi / 2)) None None
       (Bone_rotate (- (pi / 2)) None None
         (Bone_rotate (- (pi / 2)) None None
           (Bone_rotate (- (pi / 2)) None None
             (Bone_rotate (- (pi / 2)) None None bs))))"

text \<open>
  Two bones with the \<open>CUSTOM\<close> draw type, placed as \<open>addBoneAt\<close> places them
  when no template is given, in a chain that redraws after each solve.
\<close>

definition custom_chain :: chain where
  "custom_chain =
     (chain_of [Bone_set_drawType CUSTOM (bone_at 0 0 1 0),
                Bone_set_drawType CUSTOM (bone_at 1 0 2 0)])\<lparr> REDRAW_ON_SOLVE := True \<rparr>"

text \<open>
  A bone whose limit offsets are those of the example in section 8 of the
  specification: lower \<open>-3\<pi>/5\<close>, upper \<open>\<pi>/2\<close>.
\<close>

definition limited_bone :: bone where
  "limited_bone = Bone_set_upperLimit (pi / 2) (Bone_set_lowerLimit (- 3 * pi / 5) new_Bone)"

text \<open>
  The two bones \<open>(0,0)-(1,0)\<close> and \<open>(1,0)-(2,0)\<close>, the second with the limit
  offsets \<open>-1\<close> and \<open>-1/2\<close> against the orientation of the first.
\<close>

definition stiff_chain :: chain where
  "stiff_chain =
     chain_of [bone_at 0 0 1 0,
               Bone_set_upperLimit (- (1 / 2)) (Bone_set_lowerLimit (- 1) (bone_at 1 0 2 0))]"

text \<open>
  The chain of the two bones \<open>(0,0)-(1,0)\<close> and \<open>(1,0)-(2,0)\<close> after \<open>pop\<close> and
  \<open>addBone\<close> of a new bone \<open>(1,0)-(2,0)\<close>.
\<close>

definition redrawn_chain :: chain where
  "redrawn_chain =
     outcome_chain (Chain_addBone (bone_at 1 0 2 0) (outcome_chain (Chain_pop two_bone_chain)))"



section \<open>Facts about the Math library\<close>

lemma TWO_PI_eq: "TWO_PI = 2 * pi"
  by (simp add: TWO_PI_def)

lemma pi_ge_three: "3 \<le> pi"
  using sin_x_le_x [of "pi / 6"] sin_30 by simp

lemma atan2_axis [simp]:
  "atan2 0 0 = 0" "0 < x \<Longrightarrow> atan2 0 x = 0" "x < 0 \<Longrightarrow> atan2 0 x = pi"
  by (simp_all add: atan2_def)

lemma pi_not_le_zero: "\<not> pi \<le> 0"
  using pi_gt_zero by linarith

lemmas example_defs =
  two_bone_chain_def one_bone_chain_def limb_chain_def chain_of_def Chain_addBone_def
  outcome_chain_def new_Chain_def bone_at_def Bone_setTerminal_def Bone_setInitial_def
  new_Bone_def ALPHA_def

lemmas ccd_defs =
  ccdBasic_def ccd_init_def ccd_step_def Chain_size_def setBone_def
  Chain_terminalX_def Chain_terminalY_def bone_ref_def Chain_getBone_def rd_def stop_def
  maxCycles_def Bone_endOrientation_def normAngle_def TWO_PI_def set_orientation_last_def
  parent_orientation_def

section \<open>The joint-limit test\<close>

text \<open>
  Claim C4, as the specification states it, fails on the code.  For the limits of
  the specification's own example (absolute lower limit \<open>7\<pi>/5\<close>, upper limit
  \<open>\<pi>/2\<close>) and the candidate \<open>\<pi>/4\<close>, the code accepts the candidate, while the
  wording "\<open>candidate + 2\<pi>\<close> in \<open>[lower, 2\<pi>]\<close>" rejects it, since \<open>\<pi>/4 + 2\<pi>\<close> is
  above \<open>2\<pi>\<close>.
\<close>

theorem C4_counterexample:
  "Bone_isInLimit (7 * pi / 5) (pi / 2) (pi / 4) \<and> \<not> inLimit_spec (7 * pi / 5) (pi / 2) (pi / 4)"
  using pi_gt_zero by (simp add: Bone_isInLimit_def inLimit_spec_def TWO_PI_def)

text \<open>
  Claim C4, amended: the joint-limit test of \<open>Bone\<close> returns true, for
  \<open>lower \<le> upper\<close>, exactly when the candidate is in \<open>[lower, upper]\<close>; for
  \<open>lower > upper\<close> and a candidate in \<open>[\<pi>, 2\<pi>]\<close>, exactly when the candidate is in
  \<open>[lower, 2\<pi> + upper]\<close>; and for \<open>lower > upper\<close> and any other candidate, exactly
  when \<open>candidate + 2\<pi> \<ge> lower\<close> and \<open>candidate \<le> upper\<close>.  The test of
  \<open>Connector\<close> is the same function.
\<close>

theorem C4_isInLimit:
  "Bone_isInLimit lower upper c =
     (if lower \<le> upper then c \<in> {lower .. upper}
      else if pi \<le> c \<and> c \<le> 2 * pi then c \<in> {lower .. 2 * pi + upper}
      else lower \<le> c + 2 * pi \<and> c \<le> upper)
   \<and> Connector_isInLimit lower upper c = Bone_isInLimit lower upper c"
  by (auto simp: Bone_isInLimit_def Connector_isInLimit_def TWO_PI_def)

text \<open>
  Claim C8: with limit offsets \<open>-3\<pi>/5\<close> and \<open>\<pi>/2\<close> and a parent orientation of 0,
  the absolute limits handed to the test are \<open>2\<pi> - 3\<pi>/5\<close> and \<open>\<pi>/2\<close>; the test
  accepts the candidate 0, accepts the candidate \<open>-1.8\<close> (normalised to
  \<open>2\<pi> - 1.8\<close>) and rejects the candidate \<open>\<pi>\<close>.  The orientation setter of a bone
  with these limits acts accordingly: it commits the first two and leaves the bone
  as it was for the third.
\<close>

theorem C8_joint_limit_example:
  "absLower 0 (- 3 * pi / 5) = 2 * pi - 3 * pi / 5
   \<and> absUpper 0 (pi / 2) = pi / 2
   \<and> normAngle (- 1.8) = 2 * pi - 1.8
   \<and> Bone_isInLimit (absLower 0 (- 3 * pi / 5)) (absUpper 0 (pi / 2)) (normAngle 0)
   \<and> Bone_isInLimit (absLower 0 (- 3 * pi / 5)) (absUpper 0 (pi / 2)) (normAngle (- 1.8))
   \<and> \<not> Bone_isInLimit (absLower 0 (- 3 * pi / 5)) (absUpper 0 (pi / 2)) (normAngle pi)
   \<and> map angle (Bone_set_orientation 0 (Some 0) [limited_bone]) = [0]
   \<and> map angle (Bone_set_orientation (- 1.8) (Some 0) [limited_bone]) = [2 * pi - 1.8]
   \<and> Bone_set_orientation pi (Some 0) [limited_bone] = [limited_bone]"
  using pi_ge_three pi_less_4
  by (simp add: limited_bone_def Bone_set_lowerLimit_def Bone_set_upperLimit_def new_Bone_def
        absLower_def absUpper_def normAngle_def Bone_isInLimit_def TWO_PI_def Let_def)

section \<open>The pinned variant of the iterative solver\<close>

text \<open>
  Claim C7: called with \<open>isPinned = true\<close>, \<open>ccdBasic\<close> returns false and the
  chain it returns is the chain it was given, every field of every bone included.
\<close>

theorem C7_pinned_stub: "ccdBasic x y c True params = (False, c)"
  by (simp add: ccdBasic_def ccdBasicPinned_def)

section \<open>Removing the last bone\<close>

text \<open>
  Claim C10: on a chain of at least two bones \<open>pop\<close> returns normally; the chain
  has one bone less, the bones before the new last one are untouched, and the
  terminal reference is the new last bone, which is the old last-but-one bone with
  \<open>IS_END = true\<close> and \<open>NEXT = null\<close>.  On a chain of one bone \<open>pop\<close> throws, and
  the chain it leaves behind has no bone and no terminal bone.
\<close>

theorem C10_pop:
  "(2 \<le> Chain_size c \<longrightarrow>
      (\<exists>c'. Chain_pop c = Inr c'
         \<and> Chain_size c' = Chain_size c - 1
         \<and> (\<forall>i < Chain_size c' - 1. bones c' ! i = bones c ! i)
         \<and> terminalBone c' = Some (Chain_size c' - 1)
         \<and> bone_ref c' (terminalBone c') =
             Some ((bones c ! (Chain_size c - 2))\<lparr> IS_END := True, NEXT := None \<rparr>)))
   \<and> (Chain_size c = 1 \<longrightarrow>
      (\<exists>c'. Chain_pop c = Inl (TypeError, c')
         \<and> bones c' = [] \<and> terminalBone c' = None \<and> bone_ref c' (terminalBone c') = None))"
proof (intro conjI impI)
  assume n: "2 \<le> Chain_size c"
  define bs where "bs = butlast (bones c)"
  define k where "k = length bs - 1"
  have len: "length bs = Chain_size c - 1"
    by (simp add: bs_def Chain_size_def)
  have k: "k < length bs" "k = Chain_size c - 2"
    using n len by (simp_all add: k_def)
  have old: "bs ! k = bones c ! (Chain_size c - 2)"
    using k unfolding bs_def by (simp add: nth_butlast)
  define c' where
    "c' = c\<lparr> bones := bs[k := (bs ! k)\<lparr> IS_END := True, NEXT := None \<rparr>],
             current := (if current c = Some (In_chain (length bs)) then Some Popped
                         else current c),
             terminalBone := Some k \<rparr>"
  have ne: "bones c \<noteq> []"
    using n by (auto simp: Chain_size_def)
  have pop: "Chain_pop c = Inr c'"
    using ne k(1) unfolding Chain_pop_def c'_def k_def bs_def
    by (auto simp: Let_def split: list.splits)
  have 1: "Chain_size c' = Chain_size c - 1"
    by (simp add: c'_def Chain_size_def len [unfolded Chain_size_def])
  have 2: "\<forall>i < Chain_size c' - 1. bones c' ! i = bones c ! i"
    using k len by (auto simp: c'_def Chain_size_def bs_def nth_butlast)
  have 3: "terminalBone c' = Some (Chain_size c' - 1)"
    by (simp add: c'_def Chain_size_def k_def)
  have 4: "bone_ref c' (terminalBone c') =
      Some ((bones c ! (Chain_size c - 2))\<lparr> IS_END := True, NEXT := None \<rparr>)"
    using k(1) old by (simp add: c'_def bone_ref_def Chain_getBone_def)
  show "\<exists>c'. Chain_pop c = Inr c'
         \<and> Chain_size c' = Chain_size c - 1
         \<and> (\<forall>i < Chain_size c' - 1. bones c' ! i = bones c ! i)
         \<and> terminalBone c' = Some (Chain_size c' - 1)
         \<and> bone_ref c' (terminalBone c') =
             Some ((bones c ! (Chain_size c - 2))\<lparr> IS_END := True, NEXT := None \<rparr>)"
    using pop 1 2 3 4 by blast
next
  assume "Chain_size c = 1"
  then obtain b where bs: "bones c = [b]"
    by (cases "bones c") (auto simp: Chain_size_def)
  show "\<exists>c'. Chain_pop c = Inl (TypeError, c')
         \<and> bones c' = [] \<and> terminalBone c' = None \<and> bone_ref c' (terminalBone c') = None"
    by (simp add: Chain_pop_def bs bone_ref_def)
qed

theorem C10_pop_witness:
  "2 \<le> Chain_size two_bone_chain
   \<and> Chain_size one_bone_chain = 1
   \<and> (\<exists>c'. Chain_pop two_bone_chain = Inr c' \<and> Chain_size c' = 1 \<and> terminalBone c' = Some 0)
   \<and> (\<exists>c'. Chain_pop one_bone_chain = Inl (TypeError, c') \<and> terminalBone c' = None)"
  using C10_pop [of two_bone_chain] C10_pop [of one_bone_chain]
  by (auto simp: Chain_size_def two_bone_chain_def one_bone_chain_def chain_of_def
        Chain_addBone_def outcome_chain_def new_Chain_def Let_def)

section \<open>Chains built by \<open>addBone\<close> and \<open>pop\<close>\<close>

text \<open>
  The empty chain satisfies \<open>next_follows\<close>, and \<open>addBone\<close> of a bone whose
  \<open>NEXT\<close> is \<open>null\<close> (every new bone) and \<open>pop\<close> keep it: in a chain built by
  these calls the \<open>NEXT\<close> of a bone of the array is \<open>null\<close> or the bone after it.
\<close>

lemma next_follows_new: "next_follows new_Chain"
  by (simp add: next_follows_def new_Chain_def)

lemma next_follows_addBone:
  assumes nf: "next_follows c" and b: "NEXT b = None" and add: "Chain_addBone b c = Inr c'"
  shows "next_follows c'"
proof (cases "bones c = []")
  case True
  then have "c' = c\<lparr> bones := [b\<lparr> skinType := skinType_c c, IS_ROOT := True, IS_END := True \<rparr>],
      current := Some (In_chain 0), rootBone := Some 0, terminalBone := Some 0 \<rparr>"
    using add by (simp add: Chain_addBone_def Let_def)
  then show ?thesis
    using b by (simp add: next_follows_def)
next
  case False
  define n where "n = length (bones c)"
  have n: "0 < n" using False by (simp add: n_def)
  have cur: "current c = Some Popped \<or> current c = Some (In_chain (n - 1))"
    using nf False by (simp add: next_follows_def n_def)
  have old: "\<And>i. i < n \<Longrightarrow> NEXT (bones c ! i) = None
      \<or> (i + 1 < n \<and> NEXT (bones c ! i) = Some (In_chain (i + 1)))"
    using nf by (simp add: next_follows_def n_def)
  from cur show ?thesis
  proof
    assume p: "current c = Some Popped"
    have c': "c' = c\<lparr> bones := bones c @ [b\<lparr> skinType := skinType_c c, IS_ROOT := False,
        IS_END := True, PREV := Some Popped \<rparr>],
        current := Some (In_chain n), terminalBone := Some n \<rparr>"
      using add p n by (simp add: Chain_addBone_def Let_def n_def)
    show ?thesis
      unfolding next_follows_def
    proof (intro conjI allI impI)
      fix i assume "i < length (bones c')"
      then have i: "i < n + 1" by (simp add: c' n_def)
      show "NEXT (bones c' ! i) = None
          \<or> (i + 1 < length (bones c') \<and> NEXT (bones c' ! i) = Some (In_chain (i + 1)))"
      proof (cases "i < n")
        case True
        then show ?thesis
          using old [OF True] by (auto simp: c' nth_append n_def)
      next
        case False
        then have "i = n" using i by simp
        then show ?thesis using b by (simp add: c' nth_append n_def)
      qed
    next
      show "current c' = Some Popped \<or> current c' = Some (In_chain (length (bones c') - 1))"
        by (simp add: c' n_def)
    qed
  next
    assume p: "current c = Some (In_chain (n - 1))"
    have c': "c' = c\<lparr> bones := (bones c)[n - 1 := (bones c ! (n - 1))\<lparr> IS_END := False,
          NEXT := Some (In_chain n) \<rparr>]
        @ [b\<lparr> skinType := skinType_c c, IS_ROOT := False, IS_END := True,
             PREV := Some (In_chain (n - 1)) \<rparr>],
        current := Some (In_chain n), terminalBone := Some n \<rparr>"
      using add p n by (simp add: Chain_addBone_def Let_def n_def)
    show ?thesis
      unfolding next_follows_def
    proof (intro conjI allI impI)
      fix i assume "i < length (bones c')"
      then have i: "i < n + 1" by (simp add: c' n_def)
      consider "i < n - 1" | "i = n - 1" | "i = n" using i by linarith
      then show "NEXT (bones c' ! i) = None
          \<or> (i + 1 < length (bones c') \<and> NEXT (bones c' ! i) = Some (In_chain (i + 1)))"
      proof cases
        case 1
        then have "i < n" by simp
        then show ?thesis
          using old [of i] 1 by (auto simp: c' nth_append n_def)
      next
        case 2
        then show ?thesis
          using n by (simp add: c' nth_append n_def)
      next
        case 3
        then show ?thesis using b by (simp add: c' nth_append n_def)
      qed
    next
      show "current c' = Some Popped \<or> current c' = Some (In_chain (length (bones c') - 1))"
        by (simp add: c' n_def)
    qed
  qed
qed

lemma next_follows_pop:
  assumes nf: "next_follows c" and pop: "Chain_pop c = Inr c'"
  shows "next_follows c'"
proof -
  define bs where "bs = butlast (bones c)"
  define k where "k = length bs - 1"
  have ne: "bones c \<noteq> []" and ne': "bs \<noteq> []"
    using pop by (auto simp: Chain_pop_def Let_def bs_def split: list.splits if_splits)
  have len: "length (bones c) = length bs + 1"
    using ne by (simp add: bs_def)
  have k: "k < length bs" using ne' by (simp add: k_def)
  have c': "c' = c\<lparr> bones := bs[k := (bs ! k)\<lparr> IS_END := True, NEXT := None \<rparr>],
      current := (if current c = Some (In_chain (length bs)) then Some Popped else current c),
      terminalBone := Some k \<rparr>"
    using pop ne' by (auto simp: Chain_pop_def Let_def bs_def k_def split: list.splits if_splits)
  have cur: "current c = Some Popped \<or> current c = Some (In_chain (length bs))"
    using nf ne len by (simp add: next_follows_def)
  have old: "NEXT (bs ! i) = None \<or> NEXT (bs ! i) = Some (In_chain (i + 1))"
    if i: "i < length bs" for i
  proof -
    have e: "bs ! i = bones c ! i"
      using i by (simp add: bs_def nth_butlast)
    have "i < length (bones c)"
      using i len by simp
    then have "NEXT (bones c ! i) = None
        \<or> (i + 1 < length (bones c) \<and> NEXT (bones c ! i) = Some (In_chain (i + 1)))"
      using nf unfolding next_follows_def by blast
    then show ?thesis
      unfolding e by blast
  qed
  show ?thesis
    unfolding next_follows_def
  proof (intro conjI allI impI)
    fix i assume "i < length (bones c')"
    then have i: "i < length bs" by (simp add: c')
    show "NEXT (bones c' ! i) = None
        \<or> (i + 1 < length (bones c') \<and> NEXT (bones c' ! i) = Some (In_chain (i + 1)))"
    proof (cases "i = k")
      case True
      then show ?thesis using k by (simp add: c')
    next
      case False
      then have "i + 1 < length bs" using i by (simp add: k_def)
      then show ?thesis
        using old [OF i] False by (auto simp: c')
    qed
  next
    show "current c' = Some Popped \<or> current c' = Some (In_chain (length (bones c') - 1))"
      using cur by (auto simp: c')
  qed
qed

section \<open>What the iterative solver returns\<close>

text \<open>
  Every \<open>return\<close> inside the loop of \<open>ccdBasic\<close> returns true, and the loop is
  left in no other way: \<open>_finished\<close> becomes true only on the path that returns.
\<close>

lemma ccd_loop_True: "\<not> finished s \<Longrightarrow> fst (ccd_loop x y s) = True"
proof (induction x y s rule: ccd_loop.induct)
  case (1 x y s)
  show ?case
  proof (cases "ccd_step x y s")
    case (Inl s')
    have "\<not> finished s'"
      using Inl "1.prems" by (auto simp: ccd_step_def Let_def split: if_splits)
    then show ?thesis
      using 1 Inl by simp
  next
    case (Inr r)
    then have "fst r = True"
      by (auto simp: ccd_step_def Let_def split: if_splits)
    then show ?thesis
      using 1 Inr by simp
  qed
qed

lemma ccdBasic_unpinned_True: "fst (ccdBasic x y c False params) = True"
  by (simp add: ccdBasic_def ccd_loop_True ccd_init_def del: ccd_loop.simps)

text \<open>
  Claim C1 at a failing input: the chain of the two bones \<open>(0,0)-(1,0)\<close> and
  \<open>(1,0)-(2,0)\<close> and the target \<open>(10, 0)\<close>, out of reach.  Every position phase
  leaves the chain stretched along the x axis with its terminal point at
  \<open>(2, 0)\<close>, at squared distance 64 from the target, above \<open>stop = 4\<close>; after the
  cycle budget is used up \<open>ccdBasic\<close> returns true, where the claim says false.
\<close>

theorem C1_failing_input:
  "fst (ccdBasic 10 0 two_bone_chain False None) = True
   \<and> map endpoints (bones (snd (ccdBasic 10 0 two_bone_chain False None)))
       = [(0, 0, 1, 0), (1, 0, 2, 0)]
   \<and> (10 - 2) * (10 - 2) + (0 - 0) * (0 - 0) > stop"
  by (simp add: ccd_defs example_defs Let_def endpoints_def)

section \<open>The range of the orientation getter\<close>

text \<open>
  Claim C6 at two failing inputs.  A bone along the positive x axis that is rotated
  five times by \<open>-\<pi>/2\<close> reports the orientation \<open>-\<pi>/2\<close>, below 0; one whose
  orientation is assigned 8 reports 8, above \<open>2\<pi>\<close>.  The getter adds \<open>2\<pi>\<close> once
  to a negative angle and does nothing else.
\<close>

theorem C6_failing_input:
  "map Bone_orientation (quarter_turns_back [bone_at 0 0 1 0]) = [- (pi / 2)]
   \<and> map Bone_orientation (Bone_set_orientation 8 None [bone_at 0 0 1 0]) = [8]
   \<and> - (pi / 2) < 0 \<and> 2 * pi \<le> 8"
  using pi_less_4 pi_ge_three
  by (simp add: quarter_turns_back_def example_defs Let_def Bone_orientation_def TWO_PI_def
        normAngle_def)

section \<open>What the two-bone solver returns\<close>

text \<open>
  Claim C5 at a failing input: bones of length 100 and 50 from the root \<open>(0, 0)\<close>,
  default limits, target \<open>(-10, 0)\<close>.  The target is nearer to the root than
  \<open>l1 - l2\<close>, so the solver takes its second infeasible branch.  The direction to
  the target is \<open>\<pi>\<close>, above the upper limit \<open>\<pi>/2\<close> of the root bone, and the root
  bone is clamped to \<open>\<pi>/2\<close>; this branch does not record the clamp, and the
  solver returns true, where the claim says false.
\<close>

theorem C5_failing_input:
  "(\<exists>c'. limbSolver (- 10) 0 limb_chain False None = Inr (True, c')
         \<and> map angle (take 1 (bones c')) = [pi / 2])
   \<and> Chain_initX limb_chain = Some 0 \<and> Chain_initY limb_chain = Some 0
   \<and> atan2 (0 - 0) (- 10 - 0) = pi
   \<and> pi > param None upperLimit0 (0.5 * pi)"
  using pi_gt_zero
  by (simp add: limbSolver_def example_defs Let_def Chain_initX_def Chain_initY_def
       bone_ref_def Chain_getBone_def param_def setBone_def Bone_reorient_def)

section \<open>Length preservation\<close>

text \<open>
  Claim C3 at a failing input.  \<open>stiff_chain\<close> has the bones \<open>(0,0)-(1,0)\<close> and
  \<open>(1,0)-(2,0)\<close>, the second with limit offsets \<open>-1\<close> and \<open>-1/2\<close>.
  \<open>moveEndEffector(-10, 0)\<close> turns the first bone to \<open>(0,0)-(-1,0)\<close>; for the
  second, \<open>ccdBasic\<close> calls \<open>setInitial(-1, 0, false)\<close>, which leaves
  \<open>_deltaX\<close>, \<open>_deltaY\<close> and \<open>_length\<close> as they were, and then assigns the
  orientation \<open>\<pi>\<close>, which the joint limits reject.  The bone is left from
  \<open>(-1,0)\<close> to \<open>(2,0)\<close>: its joints are 3 apart, while \<open>_length\<close> is 1 and the
  stored delta is \<open>(1, 0)\<close>.  \<open>rotate(0)\<close> on the chain then recomputes the
  terminal point of this bone from the stored delta and puts it at \<open>(0, 0)\<close>: the
  distance between the joints of the bone changes from 3 to 1 under a rotation
  by the angle 0, and so it does when \<open>rotate(0)\<close> is called on this bone
  itself.  The value of the getter \<open>length\<close> is 1 before and after.
\<close>

theorem C3_failing_input:
  "map endpoints (bones (outcome_chain (apply_ops [MoveEndEffector (- 10) 0 False] stiff_chain)))
     = [(0, 0, - 1, 0), (- 1, 0, 2, 0)]
   \<and> map joint_length (bones (outcome_chain (apply_ops [MoveEndEffector (- 10) 0 False] stiff_chain)))
     = [1, 3]
   \<and> map bone_length (bones (outcome_chain (apply_ops [MoveEndEffector (- 10) 0 False] stiff_chain)))
     = [1, 1]
   \<and> map endpoints (bones (outcome_chain
         (apply_ops [MoveEndEffector (- 10) 0 False, Rotate 0] stiff_chain)))
     = [(0, 0, - 1, 0), (- 1, 0, 0, 0)]
   \<and> map joint_length (bones (outcome_chain
         (apply_ops [MoveEndEffector (- 10) 0 False, Rotate 0] stiff_chain)))
     = [1, 1]
   \<and> map joint_length (Bone_rotate 0 None None
         (drop 1 (bones (outcome_chain (apply_ops [MoveEndEffector (- 10) 0 False] stiff_chain)))))
     = [1]"
  using pi_ge_three pi_less_4
  by (simp add: stiff_chain_def example_defs ccd_defs Let_def endpoints_def joint_length_def
        Chain_moveEndEffector_def Chain_rotate_def apply_at_def Bone_set_lowerLimit_def
        Bone_set_upperLimit_def Bone_isInLimit_def absLower_def absUpper_def pi_not_le_zero)

section \<open>Chain continuity\<close>

text \<open>
  Claim C2 at a failing input.  \<open>setTerminal\<close> does nothing while the bone is
  flagged \<open>_drawing\<close>; \<open>draw\<close> sets the flag, \<open>__std\<close> clears it again and
  \<open>__drawCustom\<close> does not, so a bone with the \<open>CUSTOM\<close> draw type stays flagged
  once it has been drawn.  On the chain \<open>custom_chain\<close>, continuous at the start,
  the first \<open>moveEndEffector\<close> (to the point the chain already ends at) redraws
  both bones and so flags them; the second, to \<open>(-10, 0)\<close>, moves the initial
  point of the second bone to \<open>(-1, 0)\<close> while the flagged first bone keeps its
  terminal point \<open>(1, 0)\<close>.
\<close>

theorem C2_failing_input:
  "continuous (bones custom_chain)
   \<and> map endpoints (bones (outcome_chain
         (apply_ops [MoveEndEffector 2 0 False, MoveEndEffector (- 10) 0 False] custom_chain)))
       = [(0, 0, 1, 0), (- 1, 0, - 2, 0)]
   \<and> \<not> continuous (bones (outcome_chain
         (apply_ops [MoveEndEffector 2 0 False, MoveEndEffector (- 10) 0 False] custom_chain)))"
  by (simp add: custom_chain_def example_defs ccd_defs Bone_set_drawType_def Let_def endpoints_def
        Chain_moveEndEffector_def Bone_draw_def Bone_drawCustom_def)

text \<open>
  A second way to a broken chain.  \<open>pop\<close> leaves \<open>_current\<close> on the bone it has
  removed, so the \<open>addBone\<close> that follows links the removed bone to the new one:
  the last bone that stayed in the array keeps \<open>NEXT = null\<close>, and a \<open>move\<close> of
  the chain stops there and leaves the new bone behind.
\<close>

lemma pop_addBone_move:
  "map endpoints (bones redrawn_chain) = [(0, 0, 1, 0), (1, 0, 2, 0)]
   \<and> continuous (bones redrawn_chain)
   \<and> map NEXT (bones redrawn_chain) = [None, None]
   \<and> map PREV (bones redrawn_chain) = [None, Some Popped]
   \<and> map endpoints (bones (outcome_chain (apply_ops [Move 5 5] redrawn_chain)))
       = [(5, 5, 6, 5), (1, 0, 2, 0)]
   \<and> \<not> continuous (bones (outcome_chain (apply_ops [Move 5 5] redrawn_chain)))"
  by (simp add: redrawn_chain_def example_defs Chain_pop_def Let_def endpoints_def
        Chain_move_def apply_at_def)

section \<open>Moving the end effector twice\<close>

subsection \<open>The direction of a vector\<close>









subsection \<open>Single steps of the loop\<close>











subsection \<open>A chain that ends at the target\<close>



























text \<open>
  A chain of one bone is not covered.  At the end of the target phase
  \<open>_recordX[chain.size - 1]\<close> receives the running target, and for one bone that
  is the entry the position phase reads for the root bone; the offset it subtracts
  is the same running target less the root point, so the terminal point of the
  bone is put on its initial point.
\<close>

lemma one_bone_collapse:
  "Chain_terminalX one_bone_chain = Some 1 \<and> Chain_terminalY one_bone_chain = Some 0
   \<and> map endpoints (bones one_bone_chain) = [(0, 0, 1, 0)]
   \<and> map endpoints (bones (outcome_chain (apply_ops [MoveEndEffector 1 0 False] one_bone_chain)))
       = [(0, 0, 0, 0)]"
  by (simp add: example_defs ccd_defs Let_def endpoints_def Chain_moveEndEffector_def)

subsection \<open>A call that stops within the threshold\<close>

lemma turn_cos_sin:
  fixes t :: real
  shows "cos (t + 2 * pi) = cos t" "sin (t + 2 * pi) = sin t"
    "cos (t - 2 * pi) = cos t" "sin (t - 2 * pi) = sin t"
  using cos_periodic [of t] sin_periodic [of t] cos_periodic [of "t - 2 * pi"]
    sin_periodic [of "t - 2 * pi"]
  by simp_all


















end
